theory Spec2Isabelle
  imports Main "HOL-Library.Word"
begin

section \<open>C strings and the libc functions the service calls\<close>

text \<open>
  A \<open>const char *\<close> is modelled by the bytes found at the pointer. The string it denotes
  ends before the first NUL byte; the end of the list stands for the terminator of a
  buffer that holds none.
\<close>

definition NUL :: char where
  "NUL = CHR 0x00"

definition c_str :: "string \<Rightarrow> string" where
  "c_str buf = takeWhile (\<lambda>c. c \<noteq> NUL) buf"

definition strlen :: "string \<Rightarrow> nat" where
  "strlen buf = length (c_str buf)"

text \<open>
  \<open>strcmp\<close> walks both strings while the bytes agree and are not NUL, and returns the
  difference of the first two bytes that differ, read as \<open>unsigned char\<close>.
\<close>

fun strcmp :: "string \<Rightarrow> string \<Rightarrow> int" where
  "strcmp [] [] = 0"
| "strcmp [] (y # ys) = - int (of_char y)"
| "strcmp (x # xs) [] = int (of_char x)"
| "strcmp (x # xs) (y # ys) =
     (if x \<noteq> NUL \<and> x = y then strcmp xs ys
      else int (of_char x) - int (of_char y))"

text \<open>The conversion \<open>%d\<close> of \<open>printf\<close>: a decimal numeral, with a sign when negative.\<close>

fun dec_digits :: "nat \<Rightarrow> string" where
  "dec_digits n =
     (if n < 10 then [char_of (48 + n)]
      else dec_digits (n div 10) @ [char_of (48 + n mod 10)])"

declare dec_digits.simps [simp del]

definition printf_d :: "int \<Rightarrow> string" where
  "printf_d i = (if i < 0 then CHR ''-'' # dec_digits (nat (- i)) else dec_digits (nat i))"

definition newline :: char where
  "newline = CHR 0x0A"

section \<open>The microhttpd interface\<close>

text \<open>
  Objects of the library (connections, responses, daemons) are opaque; a pointer to one
  is an address, and \<open>NULL\<close> is \<open>None\<close>.
\<close>

type_synonym ptr = nat

datatype MHD_Result = MHD_NO | MHD_YES

datatype MHD_ResponseMemoryMode =
  MHD_RESPMEM_PERSISTENT | MHD_RESPMEM_MUST_FREE | MHD_RESPMEM_MUST_COPY

datatype MHD_FLAG = MHD_USE_THREAD_PER_CONNECTION

definition MHD_HTTP_OK :: nat where
  "MHD_HTTP_OK = 200"

definition PORT :: int where
  "PORT = 5000"

datatype signal = SIGINT | SIGTERM

datatype sighandler = SIG_DFL | Stop_server

text \<open>
  What the program does to the outside, in program order: the text it prints, the calls it
  makes into the library and into the operating system.
\<close>

datatype event =
    Printf_stdout string
  | Fprintf_stderr string
  | Start_daemon MHD_FLAG "16 word"
  | Stop_daemon ptr
  | Signal_install signal sighandler
  | Pause
  | Create_response_from_buffer nat string MHD_ResponseMemoryMode
  | Queue_response ptr nat ptr
  | Destroy_response ptr

text \<open>
  The library is the environment of the program. Its answers are parameters of the model:
  whether the daemon starts, whether a response object can be made, and what queueing a
  response returns.
\<close>

record mhd_lib =
  lib_start_daemon :: "MHD_FLAG \<Rightarrow> 16 word \<Rightarrow> ptr option"
  lib_create_response_from_buffer :: "nat \<Rightarrow> string \<Rightarrow> MHD_ResponseMemoryMode \<Rightarrow> ptr option"
  lib_queue_response :: "ptr \<Rightarrow> nat \<Rightarrow> ptr \<Rightarrow> MHD_Result"

section \<open>The request handler\<close>

text \<open>
  The handler receives \<open>upload_data_size\<close> and \<open>con_cls\<close> as pointers to cells it may
  write. The state it runs on holds the contents of the two cells and the calls made so far.
\<close>

record hstate =
  upload_data_size_cell :: nat
  con_cls_cell :: "ptr option"
  calls :: "event list"

definition MHD_create_response_from_buffer ::
  "mhd_lib \<Rightarrow> nat \<Rightarrow> string \<Rightarrow> MHD_ResponseMemoryMode \<Rightarrow> hstate \<Rightarrow> ptr option \<times> hstate" where
  "MHD_create_response_from_buffer lib sz buffer mode s =
     (lib_create_response_from_buffer lib sz buffer mode,
      s\<lparr>calls := calls s @ [Create_response_from_buffer sz buffer mode]\<rparr>)"

definition MHD_queue_response ::
  "mhd_lib \<Rightarrow> ptr \<Rightarrow> nat \<Rightarrow> ptr \<Rightarrow> hstate \<Rightarrow> MHD_Result \<times> hstate" where
  "MHD_queue_response lib conn status response s =
     (lib_queue_response lib conn status response,
      s\<lparr>calls := calls s @ [Queue_response conn status response]\<rparr>)"

definition MHD_destroy_response :: "ptr \<Rightarrow> hstate \<Rightarrow> hstate" where
  "MHD_destroy_response response s = s\<lparr>calls := calls s @ [Destroy_response response]\<rparr>"

definition handle_request ::
  "mhd_lib \<Rightarrow> ptr option \<Rightarrow> ptr \<Rightarrow> string \<Rightarrow> string \<Rightarrow> string \<Rightarrow> string \<Rightarrow> hstate
     \<Rightarrow> MHD_Result \<times> hstate" where
  "handle_request lib cls conn url method version upload_data s =
     (let page = (if strcmp url ''/health'' = 0 then ''OK''
                  else ''Hello from C Service (Low-level tasks)'');
          (response, s1) =
             MHD_create_response_from_buffer lib (strlen page) page MHD_RESPMEM_PERSISTENT s
      in case response of
           None \<Rightarrow> (MHD_NO, s1)
         | Some r \<Rightarrow>
             (let (ret, s2) = MHD_queue_response lib conn MHD_HTTP_OK r s1;
                  s3 = MHD_destroy_response r s2
              in (ret, s3)))"

section \<open>The process: the daemon handle, signals, startup and shutdown\<close>

text \<open>
  The state of the process: the global \<open>http_daemon\<close> (static, so \<open>NULL\<close> at program
  start), the disposition of each signal, and the events so far.
\<close>

record proc =
  http_daemon :: "ptr option"
  handlers :: "signal \<Rightarrow> sighandler"
  trace :: "event list"

definition init_proc :: proc where
  "init_proc = \<lparr>http_daemon = None, handlers = (\<lambda>_. SIG_DFL), trace = []\<rparr>"

text \<open>
  How a piece of the program ends: it returns to its caller, it ends the process with an
  exit status, the process is killed by a signal left at its default action, or the
  process stays suspended.
\<close>

datatype control = Returned | Exited int | Killed signal | Blocked

definition emit :: "event \<Rightarrow> proc \<Rightarrow> proc" where
  "emit e s = s\<lparr>trace := trace s @ [e]\<rparr>"

definition stop_server :: "signal \<Rightarrow> proc \<Rightarrow> control \<times> proc" where
  "stop_server sig s =
     (case http_daemon s of
        Some d \<Rightarrow>
          (let s1 = emit (Printf_stdout (''Stopping C Service...'' @ [newline])) s;
               s2 = emit (Stop_daemon d) s1
           in (Exited 0, s2))
      | None \<Rightarrow> (Returned, s))"

definition signal_install :: "signal \<Rightarrow> sighandler \<Rightarrow> proc \<Rightarrow> proc" where
  "signal_install sig h s =
     emit (Signal_install sig h) (s\<lparr>handlers := (handlers s)(sig := h)\<rparr>)"

definition run_handler :: "sighandler \<Rightarrow> signal \<Rightarrow> proc \<Rightarrow> control \<times> proc" where
  "run_handler h sig s = (case h of SIG_DFL \<Rightarrow> (Killed sig, s) | Stop_server \<Rightarrow> stop_server sig s)"

text \<open>
  \<open>pause\<close> suspends the caller until a signal is delivered. It returns only when the
  signal was caught and its handler returned. The list holds the signals sent to the
  suspended process, in order, each one sent after the process has finished with the one
  before; with none, the process stays suspended. The first signal wakes the process, and
  its handler or its default action ends the process, or the handler returns and \<open>main\<close>
  returns: the later signals of the list find no process. A signal that arrives while a
  handler is still running is not in this list; \<open>stop_server_reentered\<close> below is that case.
\<close>

definition pause :: "signal list \<Rightarrow> proc \<Rightarrow> control \<times> proc" where
  "pause sigs s =
     (let s1 = emit Pause s
      in case sigs of
           [] \<Rightarrow> (Blocked, s1)
         | sig # _ \<Rightarrow> run_handler (handlers s1 sig) sig s1)"

definition MHD_start_daemon :: "mhd_lib \<Rightarrow> MHD_FLAG \<Rightarrow> 16 word \<Rightarrow> proc \<Rightarrow> ptr option \<times> proc" where
  "MHD_start_daemon lib flags port s =
     (lib_start_daemon lib flags port, emit (Start_daemon flags port) s)"

text \<open>
  \<open>main\<close>, run from the initial state. A return from \<open>main\<close> ends the process with the
  returned value as exit status.
\<close>

definition main :: "mhd_lib \<Rightarrow> signal list \<Rightarrow> control \<times> proc" where
  "main lib sigs =
     (let s1 = emit (Printf_stdout (''C Service => port '' @ printf_d PORT @ [newline])) init_proc;
          (d, s2) = MHD_start_daemon lib MHD_USE_THREAD_PER_CONNECTION (word_of_int PORT) s1;
          s3 = s2\<lparr>http_daemon := d\<rparr>
      in if http_daemon s3 = None then
           (Exited 1, emit (Fprintf_stderr (''Failed to start microhttpd.'' @ [newline])) s3)
         else
           (let s4 = signal_install SIGINT Stop_server s3;
                s5 = signal_install SIGTERM Stop_server s4
            in case pause sigs s5 of
                 (Returned, s6) \<Rightarrow> (Exited 0, s6)
               | (c, s6) \<Rightarrow> (c, s6)))"

text \<open>
  A signal can arrive while \<open>stop_server\<close> is still running for an earlier one, since
  \<open>MHD_stop_daemon\<close> and \<open>exit\<close> take time. \<open>signal\<close> holds back only the signal that is
  being handled; for another signal the handler is entered again, on the state the
  interrupted invocation has reached. In \<open>stop_server_reentered sig1 sig2 s\<close> the invocation
  for \<open>sig1\<close> has called \<open>MHD_stop_daemon\<close> and the process has not ended yet when \<open>sig2\<close>
  arrives.
\<close>

definition stop_server_reentered :: "signal \<Rightarrow> signal \<Rightarrow> proc \<Rightarrow> control \<times> proc" where
  "stop_server_reentered sig1 sig2 s =
     (case stop_server sig1 s of
        (Exited n, s1) \<Rightarrow>
          if sig2 = sig1 then (Exited n, s1) else run_handler (handlers s1 sig2) sig2 s1
      | (c, s1) \<Rightarrow> (c, s1))"

section \<open>Reading traces; concrete environments\<close>

text \<open>The calls a run of the handler has added to those of the state it started from.\<close>

definition new_calls :: "hstate \<Rightarrow> hstate \<Rightarrow> event list" where
  "new_calls s s' = drop (length (calls s)) (calls s')"

text \<open>The responses a trace asks the library to create: size, buffer and memory mode.\<close>

fun created :: "event list \<Rightarrow> (nat \<times> string \<times> MHD_ResponseMemoryMode) list" where
  "created [] = []"
| "created (Create_response_from_buffer sz buf mode # es) = (sz, buf, mode) # created es"
| "created (_ # es) = created es"

text \<open>The responses queued in a trace, as (connection, status code, response), in order.\<close>

fun queued :: "event list \<Rightarrow> (ptr \<times> nat \<times> ptr) list" where
  "queued [] = []"
| "queued (Queue_response c st r # es) = (c, st, r) # queued es"
| "queued (_ # es) = queued es"

text \<open>The daemons stopped in a trace, in order.\<close>

fun stopped :: "event list \<Rightarrow> ptr list" where
  "stopped [] = []"
| "stopped (Stop_daemon d # es) = d # stopped es"
| "stopped (_ # es) = stopped es"

text \<open>\<open>precedes a b es\<close>: some occurrence of \<open>a\<close> in \<open>es\<close> comes before an occurrence of \<open>b\<close>.\<close>

fun precedes :: "'a \<Rightarrow> 'a \<Rightarrow> 'a list \<Rightarrow> bool" where
  "precedes a b [] = False"
| "precedes a b (x # xs) = ((x = a \<and> b \<in> set xs) \<or> precedes a b xs)"

text \<open>A library in which every call fails, and one in which every call succeeds.\<close>

definition lib_failing :: mhd_lib where
  "lib_failing =
     \<lparr>lib_start_daemon = (\<lambda>_ _. None),
      lib_create_response_from_buffer = (\<lambda>_ _ _. None),
      lib_queue_response = (\<lambda>_ _ _. MHD_NO)\<rparr>"

definition lib_working :: mhd_lib where
  "lib_working =
     \<lparr>lib_start_daemon = (\<lambda>_ _. Some 1),
      lib_create_response_from_buffer = (\<lambda>_ _ _. Some 100),
      lib_queue_response = (\<lambda>_ _ _. MHD_YES)\<rparr>"

definition hstate0 :: hstate where
  "hstate0 = \<lparr>upload_data_size_cell = 0, con_cls_cell = None, calls = []\<rparr>"

text \<open>A process whose daemon runs and whose handlers are installed.\<close>

definition proc_live :: proc where
  "proc_live = \<lparr>http_daemon = Some 1, handlers = (\<lambda>_. Stop_server), trace = []\<rparr>"

section \<open>Facts about the libc model\<close>

lemma of_char_eq_0_iff: "(of_char c :: nat) = 0 \<longleftrightarrow> c = NUL"
proof -
  have "(of_char c :: nat) = of_char NUL \<longleftrightarrow> c = NUL"
    by (rule of_char_eq_iff)
  then show ?thesis by (simp add: NUL_def)
qed

lemma strcmp_eq_0_iff: "strcmp a b = 0 \<longleftrightarrow> c_str a = c_str b"
proof (induction a b rule: strcmp.induct)
  case 1
  show ?case by simp
next
  case (2 y ys)
  show ?case by (simp add: c_str_def of_char_eq_0_iff)
next
  case (3 x xs)
  show ?case by (simp add: c_str_def of_char_eq_0_iff)
next
  case (4 x xs y ys)
  then show ?case by (auto simp: c_str_def)
qed

lemma c_str_health: "c_str ''/health'' = ''/health''"
  by (simp add: c_str_def NUL_def)

lemma strcmp_health: "strcmp url ''/health'' = 0 \<longleftrightarrow> c_str url = ''/health''"
  by (simp add: strcmp_eq_0_iff c_str_health)

lemma strlen_OK: "strlen ''OK'' = 2"
  by (simp add: strlen_def c_str_def NUL_def)

lemma strlen_Hello: "strlen ''Hello from C Service (Low-level tasks)'' = 38"
  by (simp add: strlen_def c_str_def NUL_def)

lemma printf_d_PORT: "printf_d PORT = ''5000''"
  by code_simp

lemma port_word: "(word_of_int PORT :: 16 word) = 5000"
  by (simp add: PORT_def)

section \<open>The handler, unfolded\<close>

text \<open>
  What one call of the handler does, for the page it selects: one equation for each answer
  of \<open>MHD_create_response_from_buffer\<close>.
\<close>

lemma handle_request_page:
  "handle_request lib cls conn url method version upload_data s =
     (let page = (if c_str url = ''/health'' then ''OK''
                  else ''Hello from C Service (Low-level tasks)'')
      in case lib_create_response_from_buffer lib (strlen page) page MHD_RESPMEM_PERSISTENT of
           None \<Rightarrow>
             (MHD_NO,
              s\<lparr>calls := calls s @
                 [Create_response_from_buffer (strlen page) page MHD_RESPMEM_PERSISTENT]\<rparr>)
         | Some r \<Rightarrow>
             (lib_queue_response lib conn 200 r,
              s\<lparr>calls := calls s @
                 [Create_response_from_buffer (strlen page) page MHD_RESPMEM_PERSISTENT,
                  Queue_response conn 200 r, Destroy_response r]\<rparr>))"
  by (simp add: handle_request_def strcmp_health Let_def
      MHD_create_response_from_buffer_def MHD_queue_response_def MHD_destroy_response_def
      MHD_HTTP_OK_def split: option.split)

section \<open>Routing\<close>

text \<open>
  The path of a request is the string its \<open>url\<close> pointer denotes, \<open>c_str url\<close>.

  C1, as stated: every request whose path is \<open>/health\<close> gets a response with status 200 and
  body \<open>OK\<close>. It fails when the library cannot make the response object: the handler then
  returns \<open>MHD_NO\<close> and queues nothing.
\<close>

theorem health_create_fails_nothing_queued:
  "c_str ''/health'' = ''/health'' \<and>
   fst (handle_request lib_failing None 1 ''/health'' ''GET'' ''HTTP/1.1'' [] hstate0) = MHD_NO \<and>
   queued (calls (snd (handle_request lib_failing None 1 ''/health'' ''GET'' ''HTTP/1.1'' []
     hstate0))) = []"
  by (simp add: handle_request_page Let_def c_str_health strlen_OK lib_failing_def hstate0_def)

text \<open>
  C1, amended: for every request whose path is exactly \<open>/health\<close>, whatever the method, once
  the library has made the response object the handler has asked for (from the two bytes
  \<open>OK\<close>), the handler queues that object on the request's connection with status 200,
  destroys its reference, and returns what the library answered to the queueing.
\<close>

theorem health_response:
  assumes "c_str url = ''/health''"
    and "lib_create_response_from_buffer lib 2 ''OK'' MHD_RESPMEM_PERSISTENT = Some r"
  shows "handle_request lib cls conn url method version upload_data s =
     (lib_queue_response lib conn 200 r,
      s\<lparr>calls := calls s @
         [Create_response_from_buffer 2 ''OK'' MHD_RESPMEM_PERSISTENT,
          Queue_response conn 200 r, Destroy_response r]\<rparr>)"
  using assms by (simp add: handle_request_page Let_def strlen_OK)

theorem health_response_witness:
  "c_str ''/health'' = ''/health'' \<and>
   lib_create_response_from_buffer lib_working 2 ''OK'' MHD_RESPMEM_PERSISTENT = Some 100 \<and>
   handle_request lib_working None 1 ''/health'' ''POST'' ''HTTP/1.1'' ''x=1'' hstate0 =
     (MHD_YES,
      \<lparr>upload_data_size_cell = 0, con_cls_cell = None,
       calls = [Create_response_from_buffer 2 ''OK'' MHD_RESPMEM_PERSISTENT,
                Queue_response 1 200 100, Destroy_response 100]\<rparr>)"
proof -
  have p: "c_str ''/health'' = ''/health''"
    by (rule c_str_health)
  have c: "lib_create_response_from_buffer lib_working 2 ''OK'' MHD_RESPMEM_PERSISTENT = Some 100"
    by (simp add: lib_working_def)
  show ?thesis
    using p c health_response [OF p c, of None 1 "''POST''" "''HTTP/1.1''" "''x=1''" hstate0]
    by (simp add: lib_working_def hstate0_def)
qed

text \<open>
  C2, as stated: every request whose path is not \<open>/health\<close> gets a response with status 200
  and the greeting as body. It fails in the same way when the library cannot make the
  response object.
\<close>

theorem other_create_fails_nothing_queued:
  "c_str ''/Health'' \<noteq> ''/health'' \<and>
   fst (handle_request lib_failing None 1 ''/Health'' ''GET'' ''HTTP/1.1'' [] hstate0) = MHD_NO \<and>
   queued (calls (snd (handle_request lib_failing None 1 ''/Health'' ''GET'' ''HTTP/1.1'' []
     hstate0))) = []"
  by (simp add: handle_request_page Let_def c_str_def NUL_def lib_failing_def hstate0_def)

text \<open>
  C2, amended: for every request whose path is not exactly \<open>/health\<close> (the comparison is
  byte by byte, so \<open>/Health\<close> and malformed paths are among them), once the library has made
  the response object the handler has asked for (from the 38 bytes of the greeting), the
  handler queues that object with status 200 and returns what the library answered. No path
  leads to another status or body.
\<close>

theorem fallback_response:
  assumes "c_str url \<noteq> ''/health''"
    and "lib_create_response_from_buffer lib 38 ''Hello from C Service (Low-level tasks)''
           MHD_RESPMEM_PERSISTENT = Some r"
  shows "handle_request lib cls conn url method version upload_data s =
     (lib_queue_response lib conn 200 r,
      s\<lparr>calls := calls s @
         [Create_response_from_buffer 38 ''Hello from C Service (Low-level tasks)''
            MHD_RESPMEM_PERSISTENT,
          Queue_response conn 200 r, Destroy_response r]\<rparr>)"
  using assms by (simp add: handle_request_page Let_def strlen_Hello)

theorem fallback_response_witness:
  "c_str ''/Health'' \<noteq> ''/health'' \<and>
   lib_create_response_from_buffer lib_working 38 ''Hello from C Service (Low-level tasks)''
     MHD_RESPMEM_PERSISTENT = Some 100 \<and>
   handle_request lib_working None 1 ''/Health'' ''GET'' ''HTTP/1.1'' [] hstate0 =
     (MHD_YES,
      \<lparr>upload_data_size_cell = 0, con_cls_cell = None,
       calls = [Create_response_from_buffer 38 ''Hello from C Service (Low-level tasks)''
                  MHD_RESPMEM_PERSISTENT,
                Queue_response 1 200 100, Destroy_response 100]\<rparr>)"
proof -
  have p: "c_str ''/Health'' \<noteq> ''/health''"
    by (simp add: c_str_def NUL_def)
  have c: "lib_create_response_from_buffer lib_working 38
      ''Hello from C Service (Low-level tasks)'' MHD_RESPMEM_PERSISTENT = Some 100"
    by (simp add: lib_working_def)
  show ?thesis
    using p c fallback_response [OF p c, of None 1 "''GET''" "''HTTP/1.1''" "[]" hstate0]
    by (simp add: lib_working_def hstate0_def)
qed

text \<open>
  C6: take two requests with the same path and the same library. Whatever their methods,
  protocol versions, upload data, upload sizes, connection closures, handler closures,
  connections and earlier calls, the handler asks for the same response body, and queues
  the same response object with the same status. On the same connection the whole of
  what the handler does is the same: its calls and its return value.
\<close>

theorem response_depends_on_path_only:
  assumes "c_str url1 = c_str url2"
  shows "created (new_calls s1 (snd (handle_request lib cls1 conn1 url1 method1 version1 upload_data1 s1)))
       = created (new_calls s2 (snd (handle_request lib cls2 conn2 url2 method2 version2 upload_data2 s2))) \<and>
     map snd (queued (new_calls s1
        (snd (handle_request lib cls1 conn1 url1 method1 version1 upload_data1 s1))))
       = map snd (queued (new_calls s2
        (snd (handle_request lib cls2 conn2 url2 method2 version2 upload_data2 s2)))) \<and>
     (conn1 = conn2 \<longrightarrow>
        fst (handle_request lib cls1 conn1 url1 method1 version1 upload_data1 s1)
          = fst (handle_request lib cls2 conn2 url2 method2 version2 upload_data2 s2) \<and>
        new_calls s1 (snd (handle_request lib cls1 conn1 url1 method1 version1 upload_data1 s1))
          = new_calls s2 (snd (handle_request lib cls2 conn2 url2 method2 version2 upload_data2 s2)))"
  using assms by (simp add: handle_request_page Let_def new_calls_def split: option.split)

theorem response_depends_on_path_only_witness:
  "c_str ''/health'' = c_str (''/health'' @ [NUL] @ ''tail'') \<and>
   fst (handle_request lib_working None 1 ''/health'' ''GET'' ''HTTP/1.0'' [] hstate0)
     = fst (handle_request lib_working (Some 9) 1 (''/health'' @ [NUL] @ ''tail'') ''POST'' ''HTTP/1.1''
         ''x=1'' \<lparr>upload_data_size_cell = 3, con_cls_cell = Some 5, calls = [Destroy_response 7]\<rparr>) \<and>
   new_calls hstate0
       (snd (handle_request lib_working None 1 ''/health'' ''GET'' ''HTTP/1.0'' [] hstate0))
     = new_calls \<lparr>upload_data_size_cell = 3, con_cls_cell = Some 5, calls = [Destroy_response 7]\<rparr>
         (snd (handle_request lib_working (Some 9) 1 (''/health'' @ [NUL] @ ''tail'') ''POST''
           ''HTTP/1.1'' ''x=1''
           \<lparr>upload_data_size_cell = 3, con_cls_cell = Some 5, calls = [Destroy_response 7]\<rparr>))"
proof -
  have p: "c_str ''/health'' = c_str (''/health'' @ [NUL] @ ''tail'')"
    by (simp add: c_str_def NUL_def)
  show ?thesis
    using p response_depends_on_path_only [OF p, of hstate0 lib_working None 1 "''GET''"
        "''HTTP/1.0''" "[]"
        "\<lparr>upload_data_size_cell = 3, con_cls_cell = Some 5, calls = [Destroy_response 7]\<rparr>"
        "Some 9" 1 "''POST''" "''HTTP/1.1''" "''x=1''"]
    by blast
qed

text \<open>
  C7: let \<open>page\<close> be the body the handler selects. If the library returns no response
  object for it, the handler returns \<open>MHD_NO\<close>, and its only call is the failed creation:
  nothing is queued on any connection and nothing ends the process. If the library
  returns a response object, the handler queues it on the request's connection with
  status 200, destroys its reference, and returns the library's answer to the queueing.
\<close>

theorem create_failure_fails_request_only:
  assumes "page = (if c_str url = ''/health'' then ''OK''
                   else ''Hello from C Service (Low-level tasks)'')"
  shows "(lib_create_response_from_buffer lib (strlen page) page MHD_RESPMEM_PERSISTENT = None \<longrightarrow>
          handle_request lib cls conn url method version upload_data s =
            (MHD_NO,
             s\<lparr>calls := calls s @
                [Create_response_from_buffer (strlen page) page MHD_RESPMEM_PERSISTENT]\<rparr>)) \<and>
         (\<forall>r. lib_create_response_from_buffer lib (strlen page) page MHD_RESPMEM_PERSISTENT = Some r \<longrightarrow>
          handle_request lib cls conn url method version upload_data s =
            (lib_queue_response lib conn MHD_HTTP_OK r,
             s\<lparr>calls := calls s @
                [Create_response_from_buffer (strlen page) page MHD_RESPMEM_PERSISTENT,
                 Queue_response conn MHD_HTTP_OK r,
                 Destroy_response r]\<rparr>))"
  unfolding assms by (simp add: handle_request_page Let_def MHD_HTTP_OK_def)

theorem create_failure_fails_request_only_witness:
  "lib_create_response_from_buffer lib_failing (strlen ''OK'') ''OK'' MHD_RESPMEM_PERSISTENT = None \<and>
   handle_request lib_failing None 1 ''/health'' ''GET'' ''HTTP/1.1'' [] hstate0 =
     (MHD_NO,
      \<lparr>upload_data_size_cell = 0, con_cls_cell = None,
       calls = [Create_response_from_buffer 2 ''OK'' MHD_RESPMEM_PERSISTENT]\<rparr>) \<and>
   lib_create_response_from_buffer lib_working (strlen ''OK'') ''OK'' MHD_RESPMEM_PERSISTENT
     = Some 100 \<and>
   handle_request lib_working None 1 ''/health'' ''GET'' ''HTTP/1.1'' [] hstate0 =
     (lib_queue_response lib_working 1 200 100,
      \<lparr>upload_data_size_cell = 0, con_cls_cell = None,
       calls = [Create_response_from_buffer 2 ''OK'' MHD_RESPMEM_PERSISTENT,
                Queue_response 1 200 100, Destroy_response 100]\<rparr>)"
proof -
  have p: "''OK'' = (if c_str ''/health'' = ''/health'' then ''OK''
                     else ''Hello from C Service (Low-level tasks)'')"
    by (simp add: c_str_health)
  have f: "lib_create_response_from_buffer lib_failing (strlen ''OK'') ''OK''
      MHD_RESPMEM_PERSISTENT = None"
    by (simp add: lib_failing_def)
  have w: "lib_create_response_from_buffer lib_working (strlen ''OK'') ''OK''
      MHD_RESPMEM_PERSISTENT = Some 100"
    by (simp add: lib_working_def)
  show ?thesis
    using f w
      create_failure_fails_request_only [OF p, of lib_failing None 1 "''GET''" "''HTTP/1.1''" "[]" hstate0]
      create_failure_fails_request_only [OF p, of lib_working None 1 "''GET''" "''HTTP/1.1''" "[]" hstate0]
    by (simp add: hstate0_def strlen_OK MHD_HTTP_OK_def)
qed

text \<open>
  C10: in both branches the handler leaves the cells behind \<open>upload_data_size\<close> and
  \<open>con_cls\<close> as it received them, and its result is the same for any upload data.
\<close>

theorem handler_frame:
  "upload_data_size_cell (snd (handle_request lib cls conn url method version upload_data s))
     = upload_data_size_cell s \<and>
   con_cls_cell (snd (handle_request lib cls conn url method version upload_data s))
     = con_cls_cell s \<and>
   handle_request lib cls conn url method version upload_data s
     = handle_request lib cls conn url method version upload_data' s"
  by (simp add: handle_request_page Let_def split: option.split)

section \<open>Startup and shutdown\<close>

lemmas proc_defs =
  main_def MHD_start_daemon_def signal_install_def pause_def run_handler_def stop_server_def
  emit_def init_proc_def Let_def printf_d_PORT port_word

text \<open>
  C3: if \<open>MHD_start_daemon\<close> returns no handle, the process prints the failure on the
  error stream and ends with status 1. The daemon start is attempted once; no signal
  handler is installed and \<open>pause\<close> is not called, whatever signals are sent.
\<close>

theorem bind_failure_is_fatal:
  assumes "lib_start_daemon lib MHD_USE_THREAD_PER_CONNECTION 5000 = None"
  shows "main lib sigs =
     (Exited 1,
      \<lparr>http_daemon = None, handlers = (\<lambda>_. SIG_DFL),
       trace = [Printf_stdout (''C Service => port 5000'' @ [newline]),
                Start_daemon MHD_USE_THREAD_PER_CONNECTION 5000,
                Fprintf_stderr (''Failed to start microhttpd.'' @ [newline])]\<rparr>)"
  using assms by (simp add: proc_defs)

theorem bind_failure_is_fatal_witness:
  "lib_start_daemon lib_failing MHD_USE_THREAD_PER_CONNECTION 5000 = None \<and>
   main lib_failing [SIGINT, SIGTERM] =
     (Exited 1,
      \<lparr>http_daemon = None, handlers = (\<lambda>_. SIG_DFL),
       trace = [Printf_stdout (''C Service => port 5000'' @ [newline]),
                Start_daemon MHD_USE_THREAD_PER_CONNECTION 5000,
                Fprintf_stderr (''Failed to start microhttpd.'' @ [newline])]\<rparr>)"
proof -
  have f: "lib_start_daemon lib_failing MHD_USE_THREAD_PER_CONNECTION 5000 = None"
    by (simp add: lib_failing_def)
  show ?thesis
    using f bind_failure_is_fatal [OF f, of "[SIGINT, SIGTERM]"] by simp
qed

text \<open>
  C4, as stated: the shutdown stops the daemon first and prints the message second. The
  code prints first: in the trace of \<open>stop_server\<close> the stop does not come before the
  message.
\<close>

theorem shutdown_message_comes_first:
  "http_daemon proc_live = Some 1 \<and>
   stop_server SIGTERM proc_live =
     (Exited 0,
      proc_live\<lparr>trace := [Printf_stdout (''Stopping C Service...'' @ [newline]), Stop_daemon 1]\<rparr>) \<and>
   \<not> precedes (Stop_daemon 1) (Printf_stdout (''Stopping C Service...'' @ [newline]))
        (trace (snd (stop_server SIGTERM proc_live)))"
  by (simp add: stop_server_def emit_def proc_live_def Let_def)

text \<open>
  C4, amended: with a live handle, \<open>stop_server\<close> prints the shutdown message, then stops
  the daemon, then ends the process with status 0, for either signal.
\<close>

theorem shutdown_sequence:
  assumes "http_daemon s = Some d"
  shows "stop_server sig s =
     (Exited 0,
      s\<lparr>trace := trace s @
         [Printf_stdout (''Stopping C Service...'' @ [newline]), Stop_daemon d]\<rparr>)"
  using assms by (simp add: stop_server_def emit_def Let_def)

theorem shutdown_sequence_witness:
  "http_daemon proc_live = Some 1 \<and>
   stop_server SIGINT proc_live =
     (Exited 0,
      \<lparr>http_daemon = Some 1, handlers = (\<lambda>_. Stop_server),
       trace = [Printf_stdout (''Stopping C Service...'' @ [newline]), Stop_daemon 1]\<rparr>)"
proof -
  have l: "http_daemon proc_live = Some 1"
    by (simp add: proc_live_def)
  show ?thesis
    using l shutdown_sequence [OF l, of SIGINT] by (simp add: proc_live_def)
qed

text \<open>
  C5: a signal that finds the handle null is a no-op, and so is a signal that finds the
  daemon already stopped. The first half holds: on the initial state \<open>stop_server\<close> returns
  and changes nothing. The second half fails: \<open>stop_server\<close> never clears \<open>http_daemon\<close>, so
  after a successful start, when the termination signal arrives while the handler for the
  interrupt signal has stopped the daemon and the process has not ended yet, the handle is
  still set and the handler prints the message and stops the same daemon a second time.
\<close>

theorem second_signal_stops_daemon_again:
  "stop_server SIGTERM init_proc = (Returned, init_proc) \<and>
   http_daemon (snd (main lib_working [])) = Some 1 \<and>
   http_daemon (snd (stop_server SIGINT (snd (main lib_working [])))) = Some 1 \<and>
   fst (stop_server_reentered SIGINT SIGTERM (snd (main lib_working []))) = Exited 0 \<and>
   trace (snd (stop_server_reentered SIGINT SIGTERM (snd (main lib_working [])))) =
     [Printf_stdout (''C Service => port 5000'' @ [newline]),
      Start_daemon MHD_USE_THREAD_PER_CONNECTION 5000,
      Signal_install SIGINT Stop_server,
      Signal_install SIGTERM Stop_server,
      Pause,
      Printf_stdout (''Stopping C Service...'' @ [newline]),
      Stop_daemon 1,
      Printf_stdout (''Stopping C Service...'' @ [newline]),
      Stop_daemon 1] \<and>
   stopped (trace (snd (stop_server_reentered SIGINT SIGTERM (snd (main lib_working []))))) = [1, 1]"
  by (simp add: proc_defs stop_server_reentered_def lib_working_def)

text \<open>
  C8: after a successful start the events are, in order: the daemon start, the
  installation of the handler for the interrupt signal, the installation of the handler
  for the termination signal, and one call of \<open>pause\<close>. With no signal the process stays
  suspended there and nothing more happens; a signal runs the shutdown sequence.
\<close>

theorem startup_order:
  assumes "lib_start_daemon lib MHD_USE_THREAD_PER_CONNECTION 5000 = Some d"
  shows "main lib [] =
     (Blocked,
      \<lparr>http_daemon = Some d,
       handlers = (\<lambda>_. SIG_DFL)(SIGINT := Stop_server, SIGTERM := Stop_server),
       trace = [Printf_stdout (''C Service => port 5000'' @ [newline]),
                Start_daemon MHD_USE_THREAD_PER_CONNECTION 5000,
                Signal_install SIGINT Stop_server,
                Signal_install SIGTERM Stop_server,
                Pause]\<rparr>) \<and>
   main lib (sig # sigs) =
     (Exited 0,
      \<lparr>http_daemon = Some d,
       handlers = (\<lambda>_. SIG_DFL)(SIGINT := Stop_server, SIGTERM := Stop_server),
       trace = [Printf_stdout (''C Service => port 5000'' @ [newline]),
                Start_daemon MHD_USE_THREAD_PER_CONNECTION 5000,
                Signal_install SIGINT Stop_server,
                Signal_install SIGTERM Stop_server,
                Pause,
                Printf_stdout (''Stopping C Service...'' @ [newline]),
                Stop_daemon d]\<rparr>)"
  using assms by (cases sig) (simp_all add: proc_defs)

theorem startup_order_witness:
  "lib_start_daemon lib_working MHD_USE_THREAD_PER_CONNECTION 5000 = Some 1 \<and>
   fst (main lib_working []) = Blocked \<and>
   trace (snd (main lib_working [])) =
     [Printf_stdout (''C Service => port 5000'' @ [newline]),
      Start_daemon MHD_USE_THREAD_PER_CONNECTION 5000,
      Signal_install SIGINT Stop_server,
      Signal_install SIGTERM Stop_server,
      Pause] \<and>
   fst (main lib_working [SIGTERM]) = Exited 0 \<and>
   trace (snd (main lib_working [SIGTERM])) =
     [Printf_stdout (''C Service => port 5000'' @ [newline]),
      Start_daemon MHD_USE_THREAD_PER_CONNECTION 5000,
      Signal_install SIGINT Stop_server,
      Signal_install SIGTERM Stop_server,
      Pause,
      Printf_stdout (''Stopping C Service...'' @ [newline]),
      Stop_daemon 1]"
proof -
  have w: "lib_start_daemon lib_working MHD_USE_THREAD_PER_CONNECTION 5000 = Some 1"
    by (simp add: lib_working_def)
  show ?thesis
    using w startup_order [OF w, of SIGTERM "[]"] by simp
qed

text \<open>
  C9: the first event of every run is the port line on standard output, and the second is
  the daemon start. When the start fails, the trace is the port line, the start, and the
  failure message on the error stream.
\<close>

theorem port_line_printed_before_bind:
  "take 2 (trace (snd (main lib sigs))) =
     [Printf_stdout (''C Service => port 5000'' @ [newline]),
      Start_daemon MHD_USE_THREAD_PER_CONNECTION 5000] \<and>
   (lib_start_daemon lib MHD_USE_THREAD_PER_CONNECTION 5000 = None \<longrightarrow>
    trace (snd (main lib sigs)) =
      [Printf_stdout (''C Service => port 5000'' @ [newline]),
       Start_daemon MHD_USE_THREAD_PER_CONNECTION 5000,
       Fprintf_stderr (''Failed to start microhttpd.'' @ [newline])])"
proof (cases "lib_start_daemon lib MHD_USE_THREAD_PER_CONNECTION 5000")
  case None
  then show ?thesis by (simp add: proc_defs)
next
  case (Some d)
  show ?thesis
  proof (cases sigs)
    case Nil
    with Some show ?thesis by (simp add: proc_defs)
  next
    case (Cons sig rest)
    with Some show ?thesis by (cases sig) (simp_all add: proc_defs)
  qed
qed

theorem port_line_printed_before_bind_witness:
  "lib_start_daemon lib_failing MHD_USE_THREAD_PER_CONNECTION 5000 = None \<and>
   trace (snd (main lib_failing [])) =
     [Printf_stdout (''C Service => port 5000'' @ [newline]),
      Start_daemon MHD_USE_THREAD_PER_CONNECTION 5000,
      Fprintf_stderr (''Failed to start microhttpd.'' @ [newline])]"
proof -
  have f: "lib_start_daemon lib_failing MHD_USE_THREAD_PER_CONNECTION 5000 = None"
    by (simp add: lib_failing_def)
  show ?thesis
    using f port_line_printed_before_bind [of lib_failing "[]"] by simp
qed

end
